theory Spec2Isabelle
  imports Complex_Main "HOL-Library.Multiset" "HOL-Library.Sublist"
begin

section \<open>TransformersSimilarityRanker: data model\<close>

text \<open>
  The embedding follows \<^verbatim>\<open>haystack/components/rankers/transformers_similarity.py\<close>.
  Python floats are modelled as real numbers (no rounding, no NaN, no infinities); the
  tokenizer, the cross-encoder model and \<^verbatim>\<open>torch.sort\<close> are external and enter \<open>run\<close>
  as parameters.
\<close>

subsection \<open>Python values\<close>

text \<open>Values found in a Document's \<^verbatim>\<open>meta\<close> mapping (floats and containers are left out).\<close>

datatype meta_value = MNone | MBool bool | MInt int | MStr string

text \<open>Python truthiness of a value, as tested by \<^verbatim>\<open>... and doc.meta[key]\<close>.\<close>

fun truthy :: "meta_value \<Rightarrow> bool" where
  "truthy MNone = False"
| "truthy (MBool b) = b"
| "truthy (MInt i) = (i \<noteq> 0)"
| "truthy (MStr s) = (s \<noteq> [])"

definition digit_char :: "nat \<Rightarrow> char" where
  "digit_char d = char_of (48 + d)"

fun str_nat :: "nat \<Rightarrow> string" where
  "str_nat n = (if n < 10 then [digit_char n] else str_nat (n div 10) @ [digit_char (n mod 10)])"

declare str_nat.simps [simp del]

text \<open>Python's \<^verbatim>\<open>str(value)\<close>.\<close>

fun py_str :: "meta_value \<Rightarrow> string" where
  "py_str MNone = ''None''"
| "py_str (MBool b) = (if b then ''True'' else ''False'')"
| "py_str (MInt i) = (if i < 0 then CHR ''-'' # str_nat (nat (- i)) else str_nat (nat i))"
| "py_str (MStr s) = s"

text \<open>Python's \<^verbatim>\<open>sep.join(parts)\<close>.\<close>

fun join :: "string \<Rightarrow> string list \<Rightarrow> string" where
  "join sep [] = []"
| "join sep [x] = x"
| "join sep (x # y # ys) = x @ sep @ join sep (y # ys)"

text \<open>
  Values of the \<^verbatim>\<open>model_kwargs\<close> dictionary: primitives, a torch dtype (named by its
  attribute, \<^verbatim>\<open>float16\<close> for \<^verbatim>\<open>torch.float16\<close>), and a Hugging Face device map, either a
  device string or a dictionary from layer names to device indices or names.
\<close>

datatype hf_device = DevIndex int | DevName string

datatype kw_value =
    KNone
  | KBool bool
  | KInt int
  | KStr string
  | KDtype string
  | KDeviceMap "(string \<times> hf_device) list"

fun kw_truthy :: "kw_value \<Rightarrow> bool" where
  "kw_truthy KNone = False"
| "kw_truthy (KBool b) = b"
| "kw_truthy (KInt i) = (i \<noteq> 0)"
| "kw_truthy (KStr s) = (s \<noteq> [])"
| "kw_truthy (KDtype d) = True"
| "kw_truthy (KDeviceMap m) = (m \<noteq> [])"

type_synonym kwargs = "string \<rightharpoonup> kw_value"

text \<open>The \<^verbatim>\<open>token\<close> argument: \<^verbatim>\<open>Union[bool, str, None]\<close>.\<close>

datatype token = TNone | TBool bool | TStr string

subsection \<open>Documents and the object store\<close>

record document =
  content :: "string option"
  meta :: "string \<rightharpoonup> meta_value"
  score :: "real option"

text \<open>
  Documents are objects: a list of documents is a list of references into a store, so the
  same document may occur twice in a list and a write through one reference is seen
  through the other.
\<close>

type_synonym doc_ref = nat
type_synonym store = "doc_ref \<Rightarrow> document"

subsection \<open>Errors\<close>

text \<open>
  The three \<^verbatim>\<open>ValueError\<close>s of the source are told apart by the message they carry.
  \<open>IndexError\<close> is what Python raises when an index returned by the sort is out of range;
  \<open>DeserializationError\<close> belongs to \<^verbatim>\<open>default_from_dict\<close>.
\<close>

datatype value_error = DeviceAndDeviceMap | CalibrationFactorMissing | TopKNotPositive

datatype error =
    ValueError value_error
  | ComponentError
  | IndexError
  | DeserializationError

subsection \<open>The component\<close>

text \<open>
  \<^verbatim>\<open>ComponentDevice\<close> and \<^verbatim>\<open>DeviceMap\<close> live in \<^verbatim>\<open>haystack.utils\<close>, outside the
  file; the type of devices is a type parameter and the five operations the ranker calls
  on it are taken as parameters.
\<close>

record 'dev device_ops =
  resolve_device :: "'dev option \<Rightarrow> 'dev"
  from_hf_device_map :: "kw_value \<Rightarrow> 'dev"
  to_hf :: "'dev \<Rightarrow> kw_value"
  device_to_dict :: "'dev \<Rightarrow> kw_value"
  device_from_dict :: "kw_value \<Rightarrow> 'dev"

text \<open>
  The attributes set by \<^verbatim>\<open>__init__\<close>. \<open>model_loaded\<close> stands for
  \<^verbatim>\<open>self.model is not None\<close> (the model and the tokenizer are set together by
  \<^verbatim>\<open>warm_up\<close>).
\<close>

record 'dev ranker =
  model_name_or_path :: string
  model_loaded :: bool
  top_k :: int
  token :: token
  meta_fields_to_embed :: "string list"
  embedding_separator :: string
  scale_score :: bool
  calibration_factor :: "real option"
  score_threshold :: "real option"
  model_kwargs :: kwargs
  device :: 'dev

text \<open>The arguments of \<^verbatim>\<open>__init__\<close>; \<open>default_args\<close> holds the defaults of the signature.\<close>

record 'dev init_args =
  arg_model :: string
  arg_device :: "'dev option"
  arg_token :: token
  arg_top_k :: int
  arg_meta_fields_to_embed :: "string list option"
  arg_embedding_separator :: string
  arg_scale_score :: bool
  arg_calibration_factor :: "real option"
  arg_score_threshold :: "real option"
  arg_model_kwargs :: "kwargs option"

definition default_args :: "'dev init_args" where
  "default_args =
     \<lparr> arg_model = ''cross-encoder/ms-marco-MiniLM-L-6-v2'',
       arg_device = None,
       arg_token = TNone,
       arg_top_k = 10,
       arg_meta_fields_to_embed = None,
       arg_embedding_separator = [CHR 0x0A],
       arg_scale_score = True,
       arg_calibration_factor = Some 1,
       arg_score_threshold = None,
       arg_model_kwargs = None \<rparr>"

text \<open>\<^verbatim>\<open>self.model_kwargs.get("device_map")\<close>: the entry, or \<^verbatim>\<open>None\<close> when the key is missing.\<close>

definition get_device_map :: "kwargs \<Rightarrow> kw_value" where
  "get_device_map kw = (case kw ''device_map'' of None \<Rightarrow> KNone | Some v \<Rightarrow> v)"

text \<open>
  \<^verbatim>\<open>__init__\<close>, lines 74 to 108: the attributes are stored, then the device guard, the
  device resolution and the two parameter checks run in this order.
\<close>

definition init :: "'dev device_ops \<Rightarrow> 'dev init_args \<Rightarrow> error + 'dev ranker" where
  "init ops a =
     (let kw = (case arg_model_kwargs a of None \<Rightarrow> Map.empty | Some m \<Rightarrow> m) in
      if kw_truthy (get_device_map kw) \<and> arg_device a \<noteq> None
      then Inl (ValueError DeviceAndDeviceMap)
      else
        let component_device =
              (if kw_truthy (get_device_map kw) \<and> arg_device a = None
               then from_hf_device_map ops (get_device_map kw)
               else resolve_device ops (arg_device a))
        in
        if arg_scale_score a \<and> arg_calibration_factor a = None
        then Inl (ValueError CalibrationFactorMissing)
        else if arg_top_k a \<le> 0 then Inl (ValueError TopKNotPositive)
        else Inr \<lparr> model_name_or_path = arg_model a,
                   model_loaded = False,
                   top_k = arg_top_k a,
                   token = arg_token a,
                   meta_fields_to_embed =
                     (case arg_meta_fields_to_embed a of None \<Rightarrow> [] | Some fs \<Rightarrow> fs),
                   embedding_separator = arg_embedding_separator a,
                   scale_score = arg_scale_score a,
                   calibration_factor = arg_calibration_factor a,
                   score_threshold = arg_score_threshold a,
                   model_kwargs = kw,
                   device = component_device \<rparr>)"

text \<open>
  \<^verbatim>\<open>warm_up\<close>, lines 120 to 128: on the first call the resolved device is written into
  the stored \<^verbatim>\<open>model_kwargs\<close> under \<^verbatim>\<open>"device_map"\<close> and the model is loaded (loading is
  taken to succeed); later calls change nothing.
\<close>

definition warm_up :: "'dev device_ops \<Rightarrow> 'dev ranker \<Rightarrow> 'dev ranker" where
  "warm_up ops r =
     (if \<not> model_loaded r
      then r\<lparr> model_kwargs := (model_kwargs r)(''device_map'' \<mapsto> to_hf ops (device r)),
               model_loaded := True \<rparr>
      else r)"

subsection \<open>Serialization\<close>

text \<open>
  Modelled from the spec: \<^verbatim>\<open>serialize_hf_model_kwargs\<close> and
  \<^verbatim>\<open>deserialize_hf_model_kwargs\<close> of \<^verbatim>\<open>haystack.utils.hf\<close> are not in the file. The
  spec says that loader options holding a dtype marker are written in their canonical
  string form (\<^verbatim>\<open>"torch.float16"\<close>) and decoded back to the same value on import; every
  other entry is left as it is.
\<close>

fun serialize_kw_value :: "kw_value \<Rightarrow> kw_value" where
  "serialize_kw_value (KDtype d) = KStr (''torch.'' @ d)"
| "serialize_kw_value v = v"

fun deserialize_kw_value :: "kw_value \<Rightarrow> kw_value" where
  "deserialize_kw_value (KStr s) =
     (if take 6 s = ''torch.'' then KDtype (drop 6 s) else KStr s)"
| "deserialize_kw_value v = v"

definition serialize_hf_model_kwargs :: "kwargs \<Rightarrow> kwargs" where
  "serialize_hf_model_kwargs kw = (\<lambda>k. map_option serialize_kw_value (kw k))"

definition deserialize_hf_model_kwargs :: "kwargs \<Rightarrow> kwargs" where
  "deserialize_hf_model_kwargs kw = (\<lambda>k. map_option deserialize_kw_value (kw k))"

text \<open>
  The dictionary built by \<^verbatim>\<open>to_dict\<close>: \<^verbatim>\<open>"type"\<close> and, flattened, the entries of
  \<^verbatim>\<open>"init_parameters"\<close>.
\<close>

record serialized =
  ser_type :: string
  ser_device :: kw_value
  ser_model :: string
  ser_token :: token
  ser_top_k :: int
  ser_meta_fields_to_embed :: "string list"
  ser_embedding_separator :: string
  ser_scale_score :: bool
  ser_calibration_factor :: "real option"
  ser_score_threshold :: "real option"
  ser_model_kwargs :: kwargs

definition class_name :: string where
  "class_name = ''haystack.components.rankers.transformers_similarity.TransformersSimilarityRanker''"

text \<open>
  \<^verbatim>\<open>to_dict\<close>, lines 134 to 149. Modelled from the spec: \<^verbatim>\<open>default_to_dict\<close> is not in
  the file; by the spec the export is a mapping with the keys \<^verbatim>\<open>type\<close> (the qualified
  class name) and \<^verbatim>\<open>init_parameters\<close> (the keyword arguments it was given).
\<close>

definition to_dict :: "'dev device_ops \<Rightarrow> 'dev ranker \<Rightarrow> serialized" where
  "to_dict ops r =
     \<lparr> ser_type = class_name,
       ser_device = device_to_dict ops (device r),
       ser_model = model_name_or_path r,
       ser_token = (case token r of TStr s \<Rightarrow> TNone | t \<Rightarrow> t),
       ser_top_k = top_k r,
       ser_meta_fields_to_embed = meta_fields_to_embed r,
       ser_embedding_separator = embedding_separator r,
       ser_scale_score = scale_score r,
       ser_calibration_factor = calibration_factor r,
       ser_score_threshold = score_threshold r,
       ser_model_kwargs = serialize_hf_model_kwargs (model_kwargs r) \<rparr>"

text \<open>
  \<^verbatim>\<open>from_dict\<close>, lines 156 to 160: the device entry is turned into a
  \<^verbatim>\<open>ComponentDevice\<close> object (so \<^verbatim>\<open>__init__\<close> receives a device that is not
  \<^verbatim>\<open>None\<close>), the loader options are decoded, and the class is called on the parameters.
  Modelled from the spec: \<^verbatim>\<open>default_from_dict\<close> is not in the file; it accepts the
  shape produced by the export, which carries the class name under \<^verbatim>\<open>type\<close>.
\<close>

definition from_dict :: "'dev device_ops \<Rightarrow> serialized \<Rightarrow> error + 'dev ranker" where
  "from_dict ops data =
     (let dev = device_from_dict ops (ser_device data);
          kw = deserialize_hf_model_kwargs (ser_model_kwargs data)
      in if ser_type data \<noteq> class_name then Inl DeserializationError
         else init ops
                \<lparr> arg_model = ser_model data,
                  arg_device = Some dev,
                  arg_token = ser_token data,
                  arg_top_k = ser_top_k data,
                  arg_meta_fields_to_embed = Some (ser_meta_fields_to_embed data),
                  arg_embedding_separator = ser_embedding_separator data,
                  arg_scale_score = ser_scale_score data,
                  arg_calibration_factor = ser_calibration_factor data,
                  arg_score_threshold = ser_score_threshold data,
                  arg_model_kwargs = Some kw \<rparr>)"

subsection \<open>Ranking\<close>

text \<open>
  The per-call overrides are resolved with Python's \<^verbatim>\<open>or\<close> (lines 188 to 191):
  \<^verbatim>\<open>x or y\<close> is \<^verbatim>\<open>y\<close> whenever \<^verbatim>\<open>x\<close> is falsy, and \<^verbatim>\<open>None\<close>, \<^verbatim>\<open>False\<close>, \<^verbatim>\<open>0\<close> and
  \<^verbatim>\<open>0.0\<close> are all falsy.
\<close>

definition or_int :: "int option \<Rightarrow> int \<Rightarrow> int" where
  "or_int x y = (case x of None \<Rightarrow> y | Some v \<Rightarrow> if v = 0 then y else v)"

definition or_bool :: "bool option \<Rightarrow> bool \<Rightarrow> bool" where
  "or_bool x y = (case x of None \<Rightarrow> y | Some v \<Rightarrow> if v then True else y)"

definition or_float :: "real option \<Rightarrow> real option \<Rightarrow> real option" where
  "or_float x y = (case x of None \<Rightarrow> y | Some v \<Rightarrow> if v = 0 then y else Some v)"

text \<open>The values in force during one call of \<^verbatim>\<open>run\<close>.\<close>

record effective =
  eff_top_k :: int
  eff_scale_score :: bool
  eff_calibration_factor :: "real option"
  eff_score_threshold :: "real option"

definition resolve ::
  "'dev ranker \<Rightarrow> int option \<Rightarrow> bool option \<Rightarrow> real option \<Rightarrow> real option \<Rightarrow> effective" where
  "resolve r k s c t =
     \<lparr> eff_top_k = or_int k (top_k r),
       eff_scale_score = or_bool s (scale_score r),
       eff_calibration_factor = or_float c (calibration_factor r),
       eff_score_threshold = or_float t (score_threshold r) \<rparr>"

text \<open>Lines 209 to 212: the text of one document handed to the tokenizer.\<close>

definition meta_values_to_embed :: "string list \<Rightarrow> document \<Rightarrow> string list" where
  "meta_values_to_embed keys doc =
     List.map_filter
       (\<lambda>key. case meta doc key of
                 None \<Rightarrow> None
               | Some v \<Rightarrow> if truthy v then Some (py_str v) else None)
       keys"

definition text_to_embed :: "'dev ranker \<Rightarrow> document \<Rightarrow> string" where
  "text_to_embed r doc =
     join (embedding_separator r)
       (meta_values_to_embed (meta_fields_to_embed r) doc
        @ [case content doc of None \<Rightarrow> [] | Some c \<Rightarrow> c])"

text \<open>Lines 207 to 213: one pair per document, in the order of the list.\<close>

definition query_doc_pairs ::
  "'dev ranker \<Rightarrow> store \<Rightarrow> string \<Rightarrow> doc_ref list \<Rightarrow> (string \<times> string) list" where
  "query_doc_pairs r h query documents = map (\<lambda>d. (query, text_to_embed r (h d))) documents"

definition sigmoid :: "real \<Rightarrow> real" where
  "sigmoid x = 1 / (1 + exp (- x))"

text \<open>
  Lines 223 and 224. The branch with scaling on and no factor is never reached: \<open>run\<close>
  has raised before.
\<close>

definition calibrate :: "bool \<Rightarrow> real option \<Rightarrow> real list \<Rightarrow> real list" where
  "calibrate scale cf raw =
     (if scale then (case cf of None \<Rightarrow> raw | Some c \<Rightarrow> map (\<lambda>s. sigmoid (s * c)) raw)
      else raw)"

text \<open>
  Lines 230 to 234: the loop over the sorted indices. Each step writes the score of the
  document at that index and appends the document to the ranking; an index outside the
  scores or the documents raises \<^verbatim>\<open>IndexError\<close>, the writes made so far staying.
\<close>

fun assign_scores ::
  "doc_ref list \<Rightarrow> real list \<Rightarrow> nat list \<Rightarrow> store \<Rightarrow> doc_ref list \<Rightarrow> (error + doc_ref list) \<times> store" where
  "assign_scores documents scores [] h ranked = (Inr ranked, h)"
| "assign_scores documents scores (i # idx) h ranked =
     (if i < length scores \<and> i < length documents
      then assign_scores documents scores idx
             (h(documents ! i := (h (documents ! i))\<lparr>score := Some (scores ! i)\<rparr>))
             (ranked @ [documents ! i])
      else (Inl IndexError, h))"

text \<open>
  Line 237: \<^verbatim>\<open>doc.score >= score_threshold\<close>. Every ranked document has just been given
  a score, so the case of a missing score is not reached.
\<close>

definition passes :: "store \<Rightarrow> real \<Rightarrow> doc_ref \<Rightarrow> bool" where
  "passes h t d = (case score (h d) of None \<Rightarrow> False | Some s \<Rightarrow> t \<le> s)"

text \<open>
  \<^verbatim>\<open>run\<close>, lines 185 to 239. \<open>scorer\<close> is the tokenizer followed by the model (one
  logit per pair, as a list); \<open>torch_sort\<close> gives the indices returned by
  \<^verbatim>\<open>torch.sort(scores, descending=True)\<close>. The result is the returned list of documents,
  or the error raised, together with the store after the call.
\<close>

definition run ::
  "((string \<times> string) list \<Rightarrow> real list) \<Rightarrow> (real list \<Rightarrow> nat list) \<Rightarrow> 'dev ranker \<Rightarrow>
   string \<Rightarrow> doc_ref list \<Rightarrow> int option \<Rightarrow> bool option \<Rightarrow> real option \<Rightarrow> real option \<Rightarrow>
   store \<Rightarrow> (error + doc_ref list) \<times> store" where
  "run scorer torch_sort r query documents k s c t h =
     (if documents = [] then (Inr [], h)
      else
        let e = resolve r k s c t in
        if eff_top_k e \<le> 0 then (Inl (ValueError TopKNotPositive), h)
        else if eff_scale_score e \<and> eff_calibration_factor e = None
        then (Inl (ValueError CalibrationFactorMissing), h)
        else if \<not> model_loaded r then (Inl ComponentError, h)
        else
          let similarity_scores =
                calibrate (eff_scale_score e) (eff_calibration_factor e)
                  (scorer (query_doc_pairs r h query documents));
              sorted_indices = torch_sort similarity_scores
          in case assign_scores documents similarity_scores sorted_indices h [] of
               (Inl err, h') \<Rightarrow> (Inl err, h')
             | (Inr ranked_docs, h') \<Rightarrow>
                 (Inr (take (nat (eff_top_k e))
                         (case eff_score_threshold e of
                            None \<Rightarrow> ranked_docs
                          | Some thr \<Rightarrow> filter (passes h' thr) ranked_docs)),
                  h'))"

text \<open>
  What \<^verbatim>\<open>torch.sort(scores, descending=True)\<close> promises of the indices it returns: they
  are a permutation of the positions of \<open>scores\<close>, and the scores read in that order do not
  increase. Without \<^verbatim>\<open>stable=True\<close> it promises nothing on the order of equal scores.
\<close>

definition sorted_descending :: "real list \<Rightarrow> nat list \<Rightarrow> bool" where
  "sorted_descending scores idx =
     (mset idx = mset [0..<length scores] \<and> sorted_wrt (\<lambda>i j. scores ! j \<le> scores ! i) idx)"

text \<open>
  The list \<^verbatim>\<open>similarity_scores\<close> of \<open>run\<close> (after line 224), and the three checks that
  \<open>run\<close> makes before it scores anything (lines 193 to 205).
\<close>

definition scores_of ::
  "((string \<times> string) list \<Rightarrow> real list) \<Rightarrow> 'dev ranker \<Rightarrow> effective \<Rightarrow> string \<Rightarrow>
   doc_ref list \<Rightarrow> store \<Rightarrow> real list" where
  "scores_of scorer r e query documents h =
     calibrate (eff_scale_score e) (eff_calibration_factor e)
       (scorer (query_doc_pairs r h query documents))"

definition run_ready :: "'dev ranker \<Rightarrow> effective \<Rightarrow> bool" where
  "run_ready r e =
     (0 < eff_top_k e \<and> \<not> (eff_scale_score e \<and> eff_calibration_factor e = None)
      \<and> model_loaded r)"

text \<open>The store after the loop of lines 230 to 234 has run over the indices \<open>idx\<close>.\<close>

fun write_scores :: "doc_ref list \<Rightarrow> real list \<Rightarrow> nat list \<Rightarrow> store \<Rightarrow> store" where
  "write_scores documents scores [] h = h"
| "write_scores documents scores (i # idx) h =
     write_scores documents scores idx
       (h(documents ! i := (h (documents ! i))\<lparr>score := Some (scores ! i)\<rparr>))"

text \<open>\<^verbatim>\<open>a.score >= b.score\<close> for two documents of the store, both scored.\<close>

definition score_ge :: "store \<Rightarrow> doc_ref \<Rightarrow> doc_ref \<Rightarrow> bool" where
  "score_ge h a b =
     (case score (h a) of
        None \<Rightarrow> False
      | Some x \<Rightarrow> (case score (h b) of None \<Rightarrow> False | Some y \<Rightarrow> y \<le> x))"

subsection \<open>Concrete inputs\<close>

text \<open>
  A host for the examples: devices are named by their strings, the default device is the
  CPU, and a device map that is a dictionary is kept under the name \<^verbatim>\<open>multiple\<close>.
\<close>

definition cpu_host :: "string device_ops" where
  "cpu_host =
     \<lparr> resolve_device = (\<lambda>d. case d of None \<Rightarrow> ''cpu'' | Some x \<Rightarrow> x),
       from_hf_device_map = (\<lambda>v. case v of KStr x \<Rightarrow> x | _ \<Rightarrow> ''multiple''),
       to_hf = KStr,
       device_to_dict = KStr,
       device_from_dict = (\<lambda>v. case v of KStr x \<Rightarrow> x | _ \<Rightarrow> ''cpu'') \<rparr>"

text \<open>
  The ranker of the unit tests, \<^verbatim>\<open>TransformersSimilarityRanker(model="model",
  scale_score=False)\<close>, after \<^verbatim>\<open>warm_up\<close>; and the default ranker after
  \<^verbatim>\<open>warm_up\<close>.
\<close>

definition raw_ranker :: "string ranker" where
  "raw_ranker =
     \<lparr> model_name_or_path = ''model'',
       model_loaded = True,
       top_k = 10,
       token = TNone,
       meta_fields_to_embed = [],
       embedding_separator = [CHR 0x0A],
       scale_score = False,
       calibration_factor = Some 1,
       score_threshold = None,
       model_kwargs = [''device_map'' \<mapsto> KStr ''cpu''],
       device = ''cpu'' \<rparr>"

definition default_ranker :: "string ranker" where
  "default_ranker =
     raw_ranker\<lparr> model_name_or_path := ''cross-encoder/ms-marco-MiniLM-L-6-v2'',
                  scale_score := True \<rparr>"

text \<open>Three documents, \<^verbatim>\<open>Document(content=f"document number {i}")\<close>, at the references 0, 1, 2.\<close>

definition unscored :: "string \<Rightarrow> document" where
  "unscored text = \<lparr> content = Some text, meta = Map.empty, score = None \<rparr>"

definition test_store :: store where
  "test_store =
     (\<lambda>_. unscored []) (0 := unscored ''document number 0'',
                         1 := unscored ''document number 1'',
                         2 := unscored ''document number 2'')"

text \<open>The device map of \<^verbatim>\<open>test_device_map_dict\<close>: \<^verbatim>\<open>{"layer_1": 1, "classifier": "cpu"}\<close>.\<close>

definition layer_map :: kw_value where
  "layer_map = KDeviceMap [(''layer_1'', DevIndex 1), (''classifier'', DevName ''cpu'')]"

text \<open>
  The mocks of the unit tests: a model that returns fixed logits, and a \<^verbatim>\<open>torch.sort\<close>
  patched to return fixed indices.
\<close>

definition mocked_model :: "real list \<Rightarrow> (string \<times> string) list \<Rightarrow> real list" where
  "mocked_model logits pairs = logits"

definition mocked_sort :: "nat list \<Rightarrow> real list \<Rightarrow> nat list" where
  "mocked_sort indices scores = indices"

text \<open>
  \<^verbatim>\<open>TransformersSimilarityRanker(model_kwargs={"device_map": {"layer_1": 1, "classifier":
  "cpu"}})\<close> on the example host, before \<^verbatim>\<open>warm_up\<close>; and the ranker of
  \<^verbatim>\<open>test_score_threshold\<close>.
\<close>

definition mapped_ranker :: "string ranker" where
  "mapped_ranker =
     default_ranker\<lparr> model_loaded := False,
                      model_kwargs := [''device_map'' \<mapsto> layer_map],
                      device := ''multiple'' \<rparr>"

definition threshold_ranker :: "string ranker" where
  "threshold_ranker = raw_ranker\<lparr> score_threshold := Some (1 / 10) \<rparr>"

section \<open>Auxiliary facts\<close>

lemma length_calibrate [simp]: "length (calibrate scale cf raw) = length raw"
  by (simp add: calibrate_def split: option.splits)

lemma length_query_doc_pairs [simp]:
  "length (query_doc_pairs r h query documents) = length documents"
  by (simp add: query_doc_pairs_def)

lemma assign_scores_in_range:
  "\<forall>i\<in>set idx. i < length scores \<and> i < length documents \<Longrightarrow>
   assign_scores documents scores idx h ranked =
     (Inr (ranked @ map ((!) documents) idx), write_scores documents scores idx h)"
  by (induction idx arbitrary: h ranked) simp_all

lemma assign_scores_error:
  "assign_scores documents scores idx h ranked = (Inl e, h') \<Longrightarrow> e = IndexError"
  by (induction idx arbitrary: h ranked) (auto split: if_splits)

lemma write_scores_content [simp]:
  "content (write_scores documents scores idx h d) = content (h d)"
  by (induction idx arbitrary: h) simp_all

lemma write_scores_meta [simp]:
  "meta (write_scores documents scores idx h d) = meta (h d)"
  by (induction idx arbitrary: h) simp_all

lemma write_scores_other:
  "d \<notin> (!) documents ` set idx \<Longrightarrow> write_scores documents scores idx h d = h d"
  by (induction idx arbitrary: h) simp_all

lemma write_scores_written:
  "d \<in> (!) documents ` set idx \<Longrightarrow>
   \<exists>i\<in>set idx. documents ! i = d
      \<and> score (write_scores documents scores idx h d) = Some (scores ! i)"
proof (induction idx arbitrary: h)
  case Nil
  then show ?case by simp
next
  case (Cons j idx)
  let ?h = "h(documents ! j := (h (documents ! j))\<lparr>score := Some (scores ! j)\<rparr>)"
  show ?case
  proof (cases "d \<in> (!) documents ` set idx")
    case True
    from Cons.IH [OF True, of ?h] obtain i where i: "i \<in> set idx" "documents ! i = d"
      "score (write_scores documents scores idx ?h d) = Some (scores ! i)"
      by blast
    then show ?thesis by (intro bexI [of _ i]) simp_all
  next
    case False
    with Cons.prems have d: "documents ! j = d" by auto
    from False have "write_scores documents scores idx ?h d = ?h d"
      by (rule write_scores_other)
    with d show ?thesis by auto
  qed
qed

lemma write_scores_distinct:
  assumes "distinct documents" and "\<forall>j\<in>set idx. j < length documents" and "i \<in> set idx"
  shows "score (write_scores documents scores idx h (documents ! i)) = Some (scores ! i)"
proof -
  from assms(3) have "documents ! i \<in> (!) documents ` set idx" by simp
  from write_scores_written [OF this, of scores h]
  obtain j where j: "j \<in> set idx" "documents ! j = documents ! i"
    "score (write_scores documents scores idx h (documents ! i)) = Some (scores ! j)"
    by blast
  from assms j(1,2) have "j = i"
    by (simp add: nth_eq_iff_index_eq)
  with j(3) show ?thesis by simp
qed

lemma sorted_descending_set:
  "sorted_descending scores idx \<Longrightarrow> set idx = {0..<length scores}"
proof -
  assume "sorted_descending scores idx"
  then have "mset idx = mset [0..<length scores]"
    unfolding sorted_descending_def by (rule conjunct1)
  then have "set idx = set [0..<length scores]"
    by (rule mset_eq_setD)
  then show ?thesis by simp
qed

lemma sorted_descending_perm:
  assumes "sorted_descending scores idx" and "length scores = length documents"
  shows "mset (map ((!) documents) idx) = mset documents"
proof -
  from assms(1) have "mset idx = mset [0..<length scores]"
    by (simp add: sorted_descending_def)
  then have "mset (map ((!) documents) idx) = mset (map ((!) documents) [0..<length scores])"
    by (metis mset_map)
  with assms(2) show ?thesis by (simp add: map_nth)
qed

text \<open>
  When the checks pass, the scorer gives one score per document and the sort keeps its
  promise, \<open>run\<close> returns: the ranking is the documents read in the order of the sorted
  indices, filtered by the threshold and cut at \<open>top_k\<close>.
\<close>

lemma run_ranked:
  assumes ne: "documents \<noteq> []"
    and ready: "run_ready r (resolve r k s c t)"
    and len: "length (scorer (query_doc_pairs r h query documents)) = length documents"
    and srt: "sorted_descending (scores_of scorer r (resolve r k s c t) query documents h)
                (torch_sort (scores_of scorer r (resolve r k s c t) query documents h))"
  shows "run scorer torch_sort r query documents k s c t h =
          (let e = resolve r k s c t;
               sims = scores_of scorer r e query documents h;
               idx = torch_sort sims;
               h' = write_scores documents sims idx h;
               ranked = map ((!) documents) idx
           in (Inr (take (nat (eff_top_k e))
                      (case eff_score_threshold e of
                         None \<Rightarrow> ranked
                       | Some thr \<Rightarrow> filter (passes h' thr) ranked)), h'))"
proof -
  let ?e = "resolve r k s c t"
  let ?sims = "scores_of scorer r ?e query documents h"
  have l: "length ?sims = length documents"
    using len by (simp add: scores_of_def)
  from srt have "set (torch_sort ?sims) = {0..<length ?sims}"
    by (rule sorted_descending_set)
  with l have rng: "\<forall>i\<in>set (torch_sort ?sims). i < length ?sims \<and> i < length documents"
    by simp
  have a: "assign_scores documents ?sims (torch_sort ?sims) h [] =
      (Inr (map ((!) documents) (torch_sort ?sims)),
       write_scores documents ?sims (torch_sort ?sims) h)"
    using assign_scores_in_range [OF rng, of h "[]"] by simp
  from ne ready a show ?thesis
    unfolding run_def Let_def run_ready_def scores_of_def
    by simp
qed

lemma run_returns_ready:
  assumes "documents \<noteq> []"
    and "run scorer torch_sort r query documents k s c t h = (Inr res, h')"
  shows "run_ready r (resolve r k s c t)"
  using assms unfolding run_def Let_def run_ready_def
  by (auto split: if_splits)

text \<open>The errors of \<open>run\<close>, and the store each of them leaves.\<close>

lemma run_error_cases:
  assumes "run scorer torch_sort r query documents k s c t h = (Inl err, h')"
  shows "documents \<noteq> [] \<and>
         (err = ValueError TopKNotPositive \<and> eff_top_k (resolve r k s c t) \<le> 0 \<and> h' = h
          \<or> err = ValueError CalibrationFactorMissing \<and> 0 < eff_top_k (resolve r k s c t)
              \<and> eff_scale_score (resolve r k s c t)
              \<and> eff_calibration_factor (resolve r k s c t) = None \<and> h' = h
          \<or> err = ComponentError \<and> \<not> model_loaded r \<and> h' = h
          \<or> err = IndexError \<and> run_ready r (resolve r k s c t))"
  using assms unfolding run_def Let_def run_ready_def
  by (auto split: if_splits prod.splits sum.splits dest: assign_scores_error)

lemma sigmoid_zero: "sigmoid 0 = 1 / 2"
  by (simp add: sigmoid_def)

lemma meta_values_no_meta: "meta doc = Map.empty \<Longrightarrow> meta_values_to_embed keys doc = []"
  by (induction keys) (simp_all add: meta_values_to_embed_def)

text \<open>The two example rankers are what \<open>init\<close> and \<open>warm_up\<close> build on the example host.\<close>

lemma ranker_examples_built:
  "init cpu_host (default_args\<lparr>arg_model := ''model'', arg_scale_score := False\<rparr>) = Inr r0
     \<Longrightarrow> warm_up cpu_host r0 = raw_ranker"
  "init cpu_host default_args = Inr r1 \<Longrightarrow> warm_up cpu_host r1 = default_ranker"
  by (auto simp: init_def default_args_def cpu_host_def warm_up_def raw_ranker_def
      default_ranker_def get_device_map_def Let_def)

text \<open>When each kind of \<^verbatim>\<open>ValueError\<close> is raised, by the constructor and by \<open>run\<close>.\<close>

lemma init_value_error_iff:
  "(\<exists>v. init ops a = Inl (ValueError v)) \<longleftrightarrow>
     (kw_truthy (get_device_map (case arg_model_kwargs a of None \<Rightarrow> Map.empty | Some m \<Rightarrow> m))
        \<and> arg_device a \<noteq> None)
     \<or> (arg_scale_score a \<and> arg_calibration_factor a = None)
     \<or> arg_top_k a \<le> 0"
  by (auto simp: init_def Let_def)

lemma run_value_error_iff:
  "(\<exists>v. fst (run scorer torch_sort r query documents k s c t h) = Inl (ValueError v)) \<longleftrightarrow>
     documents \<noteq> [] \<and>
     (eff_top_k (resolve r k s c t) \<le> 0
      \<or> (eff_scale_score (resolve r k s c t) \<and> eff_calibration_factor (resolve r k s c t) = None))"
proof
  assume "\<exists>v. fst (run scorer torch_sort r query documents k s c t h) = Inl (ValueError v)"
  then obtain v h' where
    "run scorer torch_sort r query documents k s c t h = (Inl (ValueError v), h')"
    by (metis prod.collapse)
  from run_error_cases [OF this] show "documents \<noteq> [] \<and>
     (eff_top_k (resolve r k s c t) \<le> 0
      \<or> (eff_scale_score (resolve r k s c t) \<and> eff_calibration_factor (resolve r k s c t) = None))"
    by auto
next
  assume "documents \<noteq> [] \<and>
     (eff_top_k (resolve r k s c t) \<le> 0
      \<or> (eff_scale_score (resolve r k s c t) \<and> eff_calibration_factor (resolve r k s c t) = None))"
  then show "\<exists>v. fst (run scorer torch_sort r query documents k s c t h) = Inl (ValueError v)"
    by (auto simp: run_def Let_def)
qed

lemma run_value_error_store:
  "run scorer torch_sort r query documents k s c t h = (Inl (ValueError v), h') \<Longrightarrow> h' = h"
  by (drule run_error_cases) auto

lemma sigmoid_le_iff: "sigmoid x \<le> sigmoid y \<longleftrightarrow> x \<le> y"
proof -
  have p: "0 < 1 + exp (- x)" "0 < 1 + exp (- y)"
    by (simp_all add: add_pos_pos)
  have "sigmoid x \<le> sigmoid y \<longleftrightarrow> 1 + exp (- y) \<le> 1 + exp (- x)"
    unfolding sigmoid_def using p by (simp add: frac_le_eq divide_le_cancel field_simps)
  then show ?thesis by simp
qed

lemma filter_length_mset:
  "mset xs = mset ys \<Longrightarrow> length (filter P xs) = length (filter P ys)"
  by (metis mset_filter size_mset)

lemma run_result:
  assumes ne: "documents \<noteq> []"
    and run: "run scorer torch_sort r query documents k s c t h = (Inr res, h')"
    and len: "length (scorer (query_doc_pairs r h query documents)) = length documents"
    and srt: "sorted_descending (scores_of scorer r (resolve r k s c t) query documents h)
                (torch_sort (scores_of scorer r (resolve r k s c t) query documents h))"
  shows "h' = write_scores documents (scores_of scorer r (resolve r k s c t) query documents h)
                (torch_sort (scores_of scorer r (resolve r k s c t) query documents h)) h"
    and "res = take (nat (eff_top_k (resolve r k s c t)))
                 (case eff_score_threshold (resolve r k s c t) of
                    None \<Rightarrow> map ((!) documents)
                              (torch_sort (scores_of scorer r (resolve r k s c t) query documents h))
                  | Some thr \<Rightarrow> filter (passes h' thr)
                      (map ((!) documents)
                         (torch_sort (scores_of scorer r (resolve r k s c t) query documents h))))"
proof -
  from ne run have rdy: "run_ready r (resolve r k s c t)" by (rule run_returns_ready)
  have "run scorer torch_sort r query documents k s c t h =
          (let e = resolve r k s c t;
               sims = scores_of scorer r e query documents h;
               idx = torch_sort sims;
               h' = write_scores documents sims idx h;
               ranked = map ((!) documents) idx
           in (Inr (take (nat (eff_top_k e))
                      (case eff_score_threshold e of
                         None \<Rightarrow> ranked
                       | Some thr \<Rightarrow> filter (passes h' thr) ranked)), h'))"
    using ne rdy len srt by (rule run_ranked)
  with run
  show "h' = write_scores documents (scores_of scorer r (resolve r k s c t) query documents h)
                (torch_sort (scores_of scorer r (resolve r k s c t) query documents h)) h"
    and "res = take (nat (eff_top_k (resolve r k s c t)))
                 (case eff_score_threshold (resolve r k s c t) of
                    None \<Rightarrow> map ((!) documents)
                              (torch_sort (scores_of scorer r (resolve r k s c t) query documents h))
                  | Some thr \<Rightarrow> filter (passes h' thr)
                      (map ((!) documents)
                         (torch_sort (scores_of scorer r (resolve r k s c t) query documents h))))"
    by (auto simp: Let_def cong: option.case_cong)
qed

lemma run_empty:
  "run scorer torch_sort r query [] k s c t h = (Inr [], h)"
  by (simp add: run_def)

text \<open>Every position of the input is written, with the score computed for it.\<close>

lemma scores_written:
  assumes srt: "sorted_descending sims idx" and len: "length sims = length documents"
    and d: "d \<in> set documents"
  shows "\<exists>i<length documents. documents ! i = d
           \<and> score (write_scores documents sims idx h d) = Some (sims ! i)"
proof -
  from srt len have s: "set idx = {0..<length documents}"
    by (simp add: sorted_descending_set)
  from d obtain j where "j < length documents" "documents ! j = d"
    by (auto simp: in_set_conv_nth)
  with s have "d \<in> (!) documents ` set idx" by auto
  from write_scores_written [OF this, of sims h] s show ?thesis by auto
qed

lemma scores_written_distinct:
  assumes srt: "sorted_descending sims idx" and len: "length sims = length documents"
    and dist: "distinct documents" and i: "i < length documents"
  shows "score (write_scores documents sims idx h (documents ! i)) = Some (sims ! i)"
proof -
  from srt len have s: "set idx = {0..<length documents}"
    by (simp add: sorted_descending_set)
  with i have "\<forall>j\<in>set idx. j < length documents" "i \<in> set idx" by auto
  with dist show ?thesis by (intro write_scores_distinct)
qed

lemma ranked_descending:
  assumes srt: "sorted_descending sims idx" and len: "length sims = length documents"
    and dist: "distinct documents"
  shows "sorted_wrt (score_ge (write_scores documents sims idx h)) (map ((!) documents) idx)"
proof -
  let ?h' = "write_scores documents sims idx h"
  from srt len have s: "set idx = {0..<length documents}"
    by (simp add: sorted_descending_set)
  from srt have "sorted_wrt (\<lambda>i j. sims ! j \<le> sims ! i) idx"
    by (simp add: sorted_descending_def)
  then have "sorted_wrt (\<lambda>i j. score_ge ?h' (documents ! i) (documents ! j)) idx"
  proof (rule sorted_wrt_mono_rel [rotated])
    fix i j
    assume "i \<in> set idx" "j \<in> set idx" "sims ! j \<le> sims ! i"
    with s scores_written_distinct [OF srt len dist, of _ h]
    show "score_ge ?h' (documents ! i) (documents ! j)"
      by (simp add: score_ge_def)
  qed
  then show ?thesis by (simp add: sorted_wrt_map)
qed

lemma subseq_take_left: "subseq (take n xs) xs"
  by (rule sublist_imp_subseq) simp

lemma scores_of_formula:
  assumes "run_ready r e"
  shows "scores_of scorer r e query documents h =
           map (\<lambda>x. if eff_scale_score e then sigmoid (x * the (eff_calibration_factor e)) else x)
             (scorer (query_doc_pairs r h query documents))"
  using assms by (auto simp: scores_of_def calibrate_def run_ready_def)

text \<open>The definitions unfolded to run the code on a concrete input.\<close>

lemmas run_eval =
  run_def resolve_def or_int_def or_bool_def or_float_def calibrate_def passes_def
  query_doc_pairs_def scores_of_def run_ready_def sorted_descending_def
  mocked_model_def mocked_sort_def raw_ranker_def default_ranker_def
  test_store_def unscored_def score_ge_def Let_def upt_rec

text \<open>
  Overrides that are truthy are the values used. The fused text of \<^verbatim>\<open>test_embed_meta\<close>:
  the meta value, the separator, the content. A string token is not exported.
\<close>

lemma resolve_truthy_overrides:
  "k \<noteq> 0 \<Longrightarrow> c \<noteq> 0 \<Longrightarrow> t \<noteq> 0 \<Longrightarrow>
   resolve r (Some k) (Some True) (Some c) (Some t) =
     \<lparr> eff_top_k = k, eff_scale_score = True, eff_calibration_factor = Some c,
       eff_score_threshold = Some t \<rparr>"
  by (simp add: resolve_def or_int_def or_bool_def or_float_def)

lemma resolve_no_overrides:
  "resolve r None None None None =
     \<lparr> eff_top_k = top_k r, eff_scale_score = scale_score r,
       eff_calibration_factor = calibration_factor r,
       eff_score_threshold = score_threshold r \<rparr>"
  by (simp add: resolve_def or_int_def or_bool_def or_float_def)

lemma text_to_embed_meta_field:
  "text_to_embed (raw_ranker\<lparr> meta_fields_to_embed := [''meta_field''] \<rparr>)
     \<lparr> content = Some ''document number 0'',
       meta = [''meta_field'' \<mapsto> MStr ''meta_value 0''],
       score = None \<rparr>
   = ''meta_value 0'' @ [CHR 0x0A] @ ''document number 0''"
  by (simp add: text_to_embed_def meta_values_to_embed_def raw_ranker_def List.map_filter_simps)

lemma text_to_embed_skips_falsy:
  "text_to_embed (raw_ranker\<lparr> meta_fields_to_embed := [''a'', ''b'', ''c''] \<rparr>)
     \<lparr> content = None,
       meta = [''a'' \<mapsto> MStr [], ''c'' \<mapsto> MBool True],
       score = None \<rparr>
   = ''True'' @ [CHR 0x0A]"
  by (simp add: text_to_embed_def meta_values_to_embed_def raw_ranker_def List.map_filter_simps)

lemma to_dict_token:
  "ser_token (to_dict ops (r\<lparr> token := TStr secret \<rparr>)) = TNone"
  "ser_token (to_dict ops (r\<lparr> token := TBool b \<rparr>)) = TBool b"
  "ser_token (to_dict ops (r\<lparr> token := TNone \<rparr>)) = TNone"
  by (simp_all add: to_dict_def)

section \<open>The claims\<close>

subsection \<open>Per-call overrides\<close>

text \<open>
  C1. The claim: each override given to \<open>run\<close> replaces the stored default for that call,
  and an override of \<^verbatim>\<open>False\<close>, \<^verbatim>\<open>0\<close> or \<^verbatim>\<open>0.0\<close> is the value used. The code resolves
  the overrides with \<^verbatim>\<open>or\<close>, so a call with the overrides \<^verbatim>\<open>top_k=0\<close>,
  \<^verbatim>\<open>scale_score=False\<close>, \<^verbatim>\<open>calibration_factor=0.0\<close> and \<^verbatim>\<open>score_threshold=0.0\<close> is
  the call with no override at all; on the default ranker \<^verbatim>\<open>scale_score=False\<close> leaves
  scaling on, and a logit of 0 is stored as \<open>sigmoid 0\<close>, not as 0.
\<close>

theorem run_falsy_overrides_ignored:
  "run scorer torch_sort r query documents (Some 0) (Some False) (Some 0) (Some 0) h
     = run scorer torch_sort r query documents None None None None h
   \<and> eff_scale_score (resolve default_ranker None (Some False) None None)
   \<and> score (snd (run (mocked_model [0]) (mocked_sort [0]) default_ranker ''test'' [0]
                  None (Some False) None None test_store) 0) = Some (1 / 2)"
  by (simp add: run_def resolve_def or_int_def or_bool_def or_float_def default_ranker_def
      raw_ranker_def calibrate_def sigmoid_zero test_store_def unscored_def
      mocked_model_def mocked_sort_def)

subsection \<open>Construction\<close>

text \<open>
  C2. The claim: a constructor given both a device and a \<^verbatim>\<open>device_map\<close> entry succeeds,
  the device map winning. The code raises \<^verbatim>\<open>ValueError\<close> on the input of
  \<^verbatim>\<open>test_device_map_and_device_raises\<close>, whatever the device and the host.
\<close>

theorem init_device_and_device_map_raises:
  "init ops (default_args\<lparr> arg_model := ''model'', arg_device := Some d,
                           arg_model_kwargs := Some [''device_map'' \<mapsto> KStr ''cpu''] \<rparr>)
     = Inl (ValueError DeviceAndDeviceMap)"
  by (simp add: init_def default_args_def get_device_map_def)

text \<open>
  C9. The claim: a configuration error is raised exactly when \<open>top_k\<close> is not positive or
  scaling is on without a calibration factor, at construction and at each call. For
  \<open>run\<close> this is \<open>run_value_error_iff\<close>, with the store untouched
  (\<open>run_value_error_store\<close>). The constructor also raises with both parameters valid:
  the default arguments with a device and a device map.
\<close>

theorem init_raises_with_valid_parameters:
  "0 < arg_top_k (default_args :: string init_args)
   \<and> \<not> (arg_scale_score (default_args :: string init_args)
          \<and> arg_calibration_factor (default_args :: string init_args) = None)
   \<and> init cpu_host (default_args\<lparr> arg_device := Some ''cuda'',
                                   arg_model_kwargs := Some [''device_map'' \<mapsto> KStr ''cpu''] \<rparr>)
       = Inl (ValueError DeviceAndDeviceMap)"
  by (simp add: init_def default_args_def get_device_map_def)

subsection \<open>Pair construction\<close>

text \<open>
  C7. The claim: the pair sent to the scorer is the prefixed query and the prefixed fused
  text. The code has no prefixes: the first component of every pair is the query as
  given, and on the documents of \<^verbatim>\<open>test_prefix\<close> the pairs are not the ones that test
  expects.
\<close>

theorem query_doc_pairs_without_prefix:
  "map fst (query_doc_pairs r h query documents) = map (\<lambda>_. query) documents
   \<and> query_doc_pairs r test_store ''test'' [0, 1]
       = [(''test'', ''document number 0''), (''test'', ''document number 1'')]
   \<and> query_doc_pairs r test_store ''test'' [0, 1]
       \<noteq> [(''query_instruction: test'', ''document_instruction: document number 0''),
           (''query_instruction: test'', ''document_instruction: document number 1'')]"
  by (simp add: query_doc_pairs_def text_to_embed_def meta_values_no_meta test_store_def
      unscored_def comp_def)

subsection \<open>Serialization round trip\<close>

text \<open>
  C8. The claim: \<^verbatim>\<open>from_dict(to_dict(ranker))\<close> succeeds for every constructed ranker.
  \<^verbatim>\<open>to_dict\<close> always exports a device, and \<^verbatim>\<open>from_dict\<close> hands it to the constructor
  together with the loader options; for a ranker built with a device map (the one of
  \<^verbatim>\<open>test_device_map_dict\<close>), and for any ranker after \<^verbatim>\<open>warm_up\<close>, these hold a
  \<^verbatim>\<open>device_map\<close> and the constructor raises.
\<close>

theorem from_dict_to_dict_raises:
  "(\<exists>r. init ops (default_args\<lparr> arg_model := ''model'',
                                arg_model_kwargs := Some [''device_map'' \<mapsto> layer_map] \<rparr>) = Inr r
        \<and> \<not> model_loaded r
        \<and> from_dict ops (to_dict ops r) = Inl (ValueError DeviceAndDeviceMap))
   \<and> from_dict cpu_host (to_dict cpu_host default_ranker) = Inl (ValueError DeviceAndDeviceMap)"
  by (simp add: init_def default_args_def get_device_map_def layer_map_def from_dict_def
      to_dict_def serialize_hf_model_kwargs_def deserialize_hf_model_kwargs_def
      default_ranker_def raw_ranker_def cpu_host_def Let_def)

subsection \<open>Ranking\<close>

text \<open>
  In the theorems below the hypotheses on the environment are: the scorer returns one
  logit per pair, and the indices returned by the sort satisfy \<open>sorted_descending\<close> on
  the scores of this call. The effective values are the ones \<open>resolve\<close> computes.
\<close>

text \<open>
  C3, as stated, fails. The claim: the returned documents are in descending order of
  score, and documents of equal score keep their input order. First input: two documents
  with the same score 5, for which a descending sort may return the indices 1, 0 (the
  call does not ask for a stable sort); the second document is returned first. Second
  input: the list holds the same document object twice, at positions 0 and 2, with the
  logits 3, 2, 1; the object is scored twice and keeps the last score, 1, so in the
  returned list it stands before a document of score 2.
\<close>

theorem ranking_counterexample:
  "sorted_descending [5, 5] [1, 0]
   \<and> fst (run (mocked_model [5, 5]) (mocked_sort [1, 0]) raw_ranker ''test'' [0, 1]
            None None None None test_store) = Inr [1, 0]
   \<and> score (snd (run (mocked_model [5, 5]) (mocked_sort [1, 0]) raw_ranker ''test'' [0, 1]
                   None None None None test_store) 0) = Some 5
   \<and> score (snd (run (mocked_model [5, 5]) (mocked_sort [1, 0]) raw_ranker ''test'' [0, 1]
                   None None None None test_store) 1) = Some 5
   \<and> sorted_descending [3, 2, 1] [0, 1, 2]
   \<and> fst (run (mocked_model [3, 2, 1]) (mocked_sort [0, 1, 2]) raw_ranker ''test'' [0, 1, 0]
            None None None None test_store) = Inr [0, 1, 0]
   \<and> \<not> score_ge (snd (run (mocked_model [3, 2, 1]) (mocked_sort [0, 1, 2]) raw_ranker ''test''
                         [0, 1, 0] None None None None test_store)) 0 1"
  by (simp add: run_eval)

text \<open>
  C3, amended. For a list of pairwise distinct documents, when \<open>run\<close> returns, the
  returned documents are in descending order of their score (\<^verbatim>\<open>a.score >= b.score\<close> for
  any \<open>a\<close> before \<open>b\<close>), and they come in the order of the indices that the sort returned,
  which decides the order of documents with equal scores.
\<close>

theorem run_descending_distinct:
  assumes run: "run scorer torch_sort r query documents k s c t h = (Inr res, h')"
    and dist: "distinct documents"
    and len: "length (scorer (query_doc_pairs r h query documents)) = length documents"
    and srt: "sorted_descending (scores_of scorer r (resolve r k s c t) query documents h)
                (torch_sort (scores_of scorer r (resolve r k s c t) query documents h))"
  shows "sorted_wrt (score_ge h') res
       \<and> subseq res (map ((!) documents)
                       (torch_sort (scores_of scorer r (resolve r k s c t) query documents h)))"
proof (cases "documents = []")
  case True
  with run show ?thesis by (simp add: run_empty)
next
  case False
  let ?sims = "scores_of scorer r (resolve r k s c t) query documents h"
  let ?ranked = "map ((!) documents) (torch_sort ?sims)"
  note rr = run_result [OF False run len srt]
  have l: "length ?sims = length documents"
    using len by (simp add: scores_of_def)
  from ranked_descending [OF srt l dist, of h] rr(1)
  have sorted: "sorted_wrt (score_ge h') ?ranked" by simp
  show ?thesis
  proof (cases "eff_score_threshold (resolve r k s c t)")
    case None
    with rr(2) have "res = take (nat (eff_top_k (resolve r k s c t))) ?ranked" by simp
    with sorted show ?thesis by (simp add: sorted_wrt_take subseq_take_left)
  next
    case (Some thr)
    with rr(2) have res: "res = take (nat (eff_top_k (resolve r k s c t)))
                            (filter (passes h' thr) ?ranked)" by simp
    from sorted have "sorted_wrt (score_ge h') (filter (passes h' thr) ?ranked)"
      by (rule sorted_wrt_filter)
    moreover have "subseq (take (nat (eff_top_k (resolve r k s c t)))
                     (filter (passes h' thr) ?ranked)) ?ranked"
      by (rule subseq_order.trans [OF subseq_take_left subseq_filter_left])
    ultimately show ?thesis using res by (simp add: sorted_wrt_take)
  qed
qed

text \<open>
  Witness for C3: the logits of \<^verbatim>\<open>test_scale_score_false\<close>, with the indices a
  descending sort returns for them.
\<close>

theorem run_descending_distinct_witness:
  "run (mocked_model [- 106859 / 10000, - 89874 / 10000]) (mocked_sort [1, 0]) raw_ranker
       ''test'' [0, 1] None None None None test_store
     = (Inr [1, 0],
        snd (run (mocked_model [- 106859 / 10000, - 89874 / 10000]) (mocked_sort [1, 0])
               raw_ranker ''test'' [0, 1] None None None None test_store))
   \<and> distinct [0 :: nat, 1]
   \<and> sorted_wrt
        (score_ge (snd (run (mocked_model [- 106859 / 10000, - 89874 / 10000])
                         (mocked_sort [1, 0]) raw_ranker ''test'' [0, 1] None None None None
                         test_store)))
        [1, 0]"
proof -
  let ?m = "mocked_model [- 106859 / 10000, - 89874 / 10000]"
  let ?s = "mocked_sort [1, 0]"
  let ?run = "run ?m ?s raw_ranker ''test'' [0, 1] None None None None test_store"
  have a: "?run = (Inr [1, 0], snd ?run)"
    by (simp add: run_eval prod_eq_iff)
  have b: "distinct [0 :: nat, 1]" by simp
  have c: "length (?m (query_doc_pairs raw_ranker test_store ''test'' [0, 1])) = length [0 :: nat, 1]"
    by (simp add: mocked_model_def)
  have d: "sorted_descending
             (scores_of ?m raw_ranker (resolve raw_ranker None None None None) ''test'' [0, 1] test_store)
             (?s (scores_of ?m raw_ranker (resolve raw_ranker None None None None) ''test'' [0, 1] test_store))"
    by (simp add: run_eval)
  from run_descending_distinct [OF a b c d] a b show ?thesis by simp
qed

text \<open>
  C4. When \<open>run\<close> returns on a non-empty list: if the effective \<open>scale_score\<close> is true
  there is a calibration factor and the score of a document is
  \<open>sigmoid (raw * calibration_factor)\<close>, otherwise it is the raw logit; every document holds
  the final score of one of its positions (of its position, when the documents are
  distinct); the sort is applied to the final scores and the threshold is compared with
  the scores stored on the documents.
\<close>

theorem run_scores_calibrated:
  assumes ne: "documents \<noteq> []"
    and run: "run scorer torch_sort r query documents k s c t h = (Inr res, h')"
    and len: "length (scorer (query_doc_pairs r h query documents)) = length documents"
    and srt: "sorted_descending (scores_of scorer r (resolve r k s c t) query documents h)
                (torch_sort (scores_of scorer r (resolve r k s c t) query documents h))"
  shows "let e = resolve r k s c t;
             raw = scorer (query_doc_pairs r h query documents);
             final = map (\<lambda>x. if eff_scale_score e
                                then sigmoid (x * the (eff_calibration_factor e)) else x) raw;
             ranked = map ((!) documents) (torch_sort final)
         in (eff_scale_score e \<longrightarrow> eff_calibration_factor e \<noteq> None)
            \<and> (\<forall>d\<in>set documents. \<exists>i<length documents. documents ! i = d
                   \<and> score (h' d) = Some (final ! i))
            \<and> (distinct documents \<longrightarrow>
                   (\<forall>i<length documents. score (h' (documents ! i)) = Some (final ! i)))
            \<and> res = take (nat (eff_top_k e))
                       (case eff_score_threshold e of
                          None \<Rightarrow> ranked
                        | Some thr \<Rightarrow> filter (passes h' thr) ranked)"
proof -
  let ?e = "resolve r k s c t"
  let ?sims = "scores_of scorer r ?e query documents h"
  let ?final = "map (\<lambda>x. if eff_scale_score ?e
                          then sigmoid (x * the (eff_calibration_factor ?e)) else x)
                  (scorer (query_doc_pairs r h query documents))"
  from ne run have rdy: "run_ready r ?e" by (rule run_returns_ready)
  then have fin: "?sims = ?final" by (rule scores_of_formula)
  note rr = run_result [OF ne run len srt]
  have l: "length ?sims = length documents"
    using len by (simp add: scores_of_def)
  from rdy have c1: "eff_scale_score ?e \<longrightarrow> eff_calibration_factor ?e \<noteq> None"
    by (simp add: run_ready_def)
  have c2: "\<forall>d\<in>set documents. \<exists>i<length documents. documents ! i = d
                   \<and> score (h' d) = Some (?sims ! i)"
    unfolding rr(1) using scores_written [OF srt l] by blast
  have c3: "distinct documents \<longrightarrow>
              (\<forall>i<length documents. score (h' (documents ! i)) = Some (?sims ! i))"
    unfolding rr(1) using scores_written_distinct [OF srt l] by blast
  from c1 c2 c3 rr(2) show ?thesis
    unfolding Let_def fin by (intro conjI)
qed

text \<open>Witness for C4: the default ranker (scaling on, factor 1) on the logits 1 and 0.\<close>

theorem run_scores_calibrated_witness:
  "run (mocked_model [1, 0]) (mocked_sort [0, 1]) default_ranker ''test'' [0, 1]
       None None None None test_store
     = (Inr [0, 1],
        snd (run (mocked_model [1, 0]) (mocked_sort [0, 1]) default_ranker ''test'' [0, 1]
               None None None None test_store))
   \<and> eff_scale_score (resolve default_ranker None None None None)
   \<and> distinct [0 :: nat, 1]
   \<and> score (snd (run (mocked_model [1, 0]) (mocked_sort [0, 1]) default_ranker ''test'' [0, 1]
                   None None None None test_store) 0) = Some (sigmoid 1)
   \<and> score (snd (run (mocked_model [1, 0]) (mocked_sort [0, 1]) default_ranker ''test'' [0, 1]
                   None None None None test_store) 1) = Some (sigmoid 0)"
proof -
  let ?m = "mocked_model [1, 0]"
  let ?s = "mocked_sort [0, 1]"
  let ?run = "run ?m ?s default_ranker ''test'' [0, 1] None None None None test_store"
  have ne: "[0 :: nat, 1] \<noteq> []" by simp
  have a: "?run = (Inr [0, 1], snd ?run)"
    by (simp add: run_eval prod_eq_iff)
  have c: "length (?m (query_doc_pairs default_ranker test_store ''test'' [0, 1])) = length [0 :: nat, 1]"
    by (simp add: mocked_model_def)
  have d: "sorted_descending
             (scores_of ?m default_ranker (resolve default_ranker None None None None) ''test'' [0, 1] test_store)
             (?s (scores_of ?m default_ranker (resolve default_ranker None None None None) ''test'' [0, 1] test_store))"
    by (simp add: run_eval sigmoid_le_iff)
  have e: "eff_scale_score (resolve default_ranker None None None None)"
    "distinct [0 :: nat, 1]"
    by (simp_all add: run_eval)
  from run_scores_calibrated [OF ne a c d] a e show ?thesis
    by (simp add: Let_def resolve_def or_int_def or_bool_def or_float_def default_ranker_def
        raw_ranker_def mocked_model_def All_less_Suc numeral_2_eq_2)
qed

text \<open>
  C5. On a non-empty list, with the checks passed, \<open>run\<close> returns the ranking (a
  permutation of the input in the order of the sorted indices) without the documents whose
  score is below the effective threshold, when there is one, cut to its first \<open>top_k\<close>
  elements; every returned document passes the threshold, and the length of the result is
  at most the minimum of \<open>top_k\<close> and the number of input documents passing the threshold.
\<close>

theorem run_threshold_then_top_k:
  assumes ne: "documents \<noteq> []"
    and ready: "run_ready r (resolve r k s c t)"
    and len: "length (scorer (query_doc_pairs r h query documents)) = length documents"
    and srt: "sorted_descending (scores_of scorer r (resolve r k s c t) query documents h)
                (torch_sort (scores_of scorer r (resolve r k s c t) query documents h))"
    and run: "run scorer torch_sort r query documents k s c t h = (out, h')"
  shows "let e = resolve r k s c t;
             ranked = map ((!) documents) (torch_sort (scores_of scorer r e query documents h));
             res = take (nat (eff_top_k e))
                     (case eff_score_threshold e of
                        None \<Rightarrow> ranked
                      | Some thr \<Rightarrow> filter (passes h' thr) ranked)
         in out = Inr res
            \<and> mset ranked = mset documents
            \<and> (\<forall>thr. eff_score_threshold e = Some thr \<longrightarrow> (\<forall>d\<in>set res. passes h' thr d))
            \<and> length res \<le> min (nat (eff_top_k e))
                 (length (case eff_score_threshold e of
                            None \<Rightarrow> documents
                          | Some thr \<Rightarrow> filter (passes h' thr) documents))"
proof -
  let ?e = "resolve r k s c t"
  let ?sims = "scores_of scorer r ?e query documents h"
  let ?ranked = "map ((!) documents) (torch_sort ?sims)"
  let ?W = "write_scores documents ?sims (torch_sort ?sims) h"
  let ?kept = "case eff_score_threshold ?e of
                 None \<Rightarrow> ?ranked | Some thr \<Rightarrow> filter (passes h' thr) ?ranked"
  let ?res = "take (nat (eff_top_k ?e)) ?kept"
  have "run scorer torch_sort r query documents k s c t h =
          (let e = resolve r k s c t;
               sims = scores_of scorer r e query documents h;
               idx = torch_sort sims;
               h' = write_scores documents sims idx h;
               ranked = map ((!) documents) idx
           in (Inr (take (nat (eff_top_k e))
                      (case eff_score_threshold e of
                         None \<Rightarrow> ranked
                       | Some thr \<Rightarrow> filter (passes h' thr) ranked)), h'))"
    using ne ready len srt by (rule run_ranked)
  then have "(out, h') =
      (Inr (take (nat (eff_top_k ?e))
              (case eff_score_threshold ?e of
                 None \<Rightarrow> ?ranked | Some thr \<Rightarrow> filter (passes ?W thr) ?ranked)), ?W)"
    unfolding Let_def run by simp
  then have h': "h' = ?W"
    and "out = Inr (take (nat (eff_top_k ?e))
              (case eff_score_threshold ?e of
                 None \<Rightarrow> ?ranked | Some thr \<Rightarrow> filter (passes ?W thr) ?ranked))"
    by (simp_all only: prod.inject)
  then have out: "out = Inr ?res"
    unfolding h' by (simp only:)
  have l: "length ?sims = length documents"
    using len by (simp add: scores_of_def)
  from srt l have perm: "mset ?ranked = mset documents"
    by (rule sorted_descending_perm)
  have pass: "\<forall>thr. eff_score_threshold ?e = Some thr \<longrightarrow> (\<forall>d\<in>set ?res. passes h' thr d)"
  proof (intro allI impI ballI)
    fix thr d
    assume thr: "eff_score_threshold ?e = Some thr" and "d \<in> set ?res"
    then have "d \<in> set ?kept" by (rule_tac in_set_takeD)
    with thr show "passes h' thr d" by simp
  qed
  have "length ?kept = length (case eff_score_threshold ?e of
                            None \<Rightarrow> documents
                          | Some thr \<Rightarrow> filter (passes h' thr) documents)"
  proof (cases "eff_score_threshold ?e")
    case None
    from perm have "length ?ranked = length documents" by (rule mset_eq_length)
    with None show ?thesis by simp
  next
    case (Some thr)
    from perm have "length (filter (passes h' thr) ?ranked) = length (filter (passes h' thr) documents)"
      by (rule filter_length_mset)
    with Some show ?thesis by simp
  qed
  then have bound: "length ?res \<le> min (nat (eff_top_k ?e))
                 (length (case eff_score_threshold ?e of
                            None \<Rightarrow> documents
                          | Some thr \<Rightarrow> filter (passes h' thr) documents))"
    by simp
  from out perm pass bound show ?thesis
    unfolding Let_def by (intro conjI)
qed

text \<open>Witness for C5: \<^verbatim>\<open>test_score_threshold\<close>, threshold 0.1 and logits 0.955 and 0.001.\<close>

theorem run_threshold_then_top_k_witness:
  "[0 :: nat, 1] \<noteq> []
   \<and> run_ready threshold_ranker (resolve threshold_ranker None None None None)
   \<and> fst (run (mocked_model [955 / 1000, 1 / 1000]) (mocked_sort [0, 1]) threshold_ranker
            ''test'' [0, 1] None None None None test_store) = Inr [0]
   \<and> passes (snd (run (mocked_model [955 / 1000, 1 / 1000]) (mocked_sort [0, 1])
                    threshold_ranker ''test'' [0, 1] None None None None test_store))
        (1 / 10) 0"
proof -
  let ?m = "mocked_model [955 / 1000, 1 / 1000]"
  let ?s = "mocked_sort [0, 1]"
  let ?r = threshold_ranker
  let ?run = "run ?m ?s ?r ''test'' [0, 1] None None None None test_store"
  have ne: "[0 :: nat, 1] \<noteq> []" by simp
  have rdy: "run_ready ?r (resolve ?r None None None None)"
    by (simp add: run_eval threshold_ranker_def)
  have c: "length (?m (query_doc_pairs ?r test_store ''test'' [0, 1])) = length [0 :: nat, 1]"
    by (simp add: mocked_model_def)
  have d: "sorted_descending
             (scores_of ?m ?r (resolve ?r None None None None) ''test'' [0, 1] test_store)
             (?s (scores_of ?m ?r (resolve ?r None None None None) ''test'' [0, 1] test_store))"
    by (simp add: run_eval threshold_ranker_def)
  have a: "?run = (fst ?run, snd ?run)" by simp
  have thr: "eff_score_threshold (resolve ?r None None None None) = Some (1 / 10)"
    by (simp add: run_eval threshold_ranker_def)
  have out: "fst ?run = Inr [0]"
    by (simp add: run_eval threshold_ranker_def)
  note T = run_threshold_then_top_k [OF ne rdy c d a, unfolded Let_def]
  from T thr obtain res where "fst ?run = Inr res" "\<forall>d\<in>set res. passes (snd ?run) (1 / 10) d"
    by blast
  with out have "passes (snd ?run) (1 / 10) 0"
    by auto
  with ne rdy out show ?thesis by simp
qed

text \<open>
  C6. After a call of \<open>run\<close> that returns, every input document holds a score computed
  for it in this call, whether it is returned or not; the returned list is made of
  references to input documents; the content and the meta data of every document are as
  before, and documents outside the input are untouched.
\<close>

theorem run_scores_every_document:
  assumes run: "run scorer torch_sort r query documents k s c t h = (Inr res, h')"
    and len: "length (scorer (query_doc_pairs r h query documents)) = length documents"
    and srt: "sorted_descending (scores_of scorer r (resolve r k s c t) query documents h)
                (torch_sort (scores_of scorer r (resolve r k s c t) query documents h))"
  shows "(\<forall>d\<in>set documents. \<exists>i<length documents. documents ! i = d
            \<and> score (h' d) = Some (scores_of scorer r (resolve r k s c t) query documents h ! i))
       \<and> set res \<subseteq> set documents
       \<and> (\<forall>d. content (h' d) = content (h d) \<and> meta (h' d) = meta (h d))
       \<and> (\<forall>d. d \<notin> set documents \<longrightarrow> h' d = h d)"
proof (cases "documents = []")
  case True
  with run show ?thesis by (simp add: run_empty)
next
  case False
  let ?sims = "scores_of scorer r (resolve r k s c t) query documents h"
  let ?ranked = "map ((!) documents) (torch_sort ?sims)"
  note rr = run_result [OF False run len srt]
  have l: "length ?sims = length documents"
    using len by (simp add: scores_of_def)
  from srt l have s: "set (torch_sort ?sims) = {0..<length documents}"
    by (simp add: sorted_descending_set)
  have written: "\<forall>d\<in>set documents. \<exists>i<length documents. documents ! i = d
            \<and> score (h' d) = Some (?sims ! i)"
    using scores_written [OF srt l, of _ h] rr(1) by simp
  from srt l have "mset ?ranked = mset documents" by (rule sorted_descending_perm)
  then have "set ?ranked = set documents" by (rule mset_eq_setD)
  moreover have "set res \<subseteq> set ?ranked"
    by (subst rr(2)) (auto split: option.splits dest: in_set_takeD)
  ultimately have sub: "set res \<subseteq> set documents" by simp
  have frame: "\<forall>d. content (h' d) = content (h d) \<and> meta (h' d) = meta (h d)"
    by (simp add: rr(1))
  have other: "\<forall>d. d \<notin> set documents \<longrightarrow> h' d = h d"
  proof (intro allI impI)
    fix d assume "d \<notin> set documents"
    with s have "d \<notin> (!) documents ` set (torch_sort ?sims)" by auto
    then show "h' d = h d" by (simp add: rr(1) write_scores_other)
  qed
  from written sub frame other show ?thesis by (intro conjI)
qed

text \<open>
  Witness for C6: in \<^verbatim>\<open>test_score_threshold\<close> the second document is filtered out and
  has its score all the same; the third document of the store is not in the input.
\<close>

theorem run_scores_every_document_witness:
  "run (mocked_model [955 / 1000, 1 / 1000]) (mocked_sort [0, 1]) threshold_ranker
       ''test'' [0, 1] None None None None test_store
     = (Inr [0],
        snd (run (mocked_model [955 / 1000, 1 / 1000]) (mocked_sort [0, 1]) threshold_ranker
               ''test'' [0, 1] None None None None test_store))
   \<and> score (snd (run (mocked_model [955 / 1000, 1 / 1000]) (mocked_sort [0, 1])
                   threshold_ranker ''test'' [0, 1] None None None None test_store) 1) \<noteq> None
   \<and> snd (run (mocked_model [955 / 1000, 1 / 1000]) (mocked_sort [0, 1]) threshold_ranker
            ''test'' [0, 1] None None None None test_store) 2 = test_store 2"
proof -
  let ?m = "mocked_model [955 / 1000, 1 / 1000]"
  let ?s = "mocked_sort [0, 1]"
  let ?r = threshold_ranker
  let ?run = "run ?m ?s ?r ''test'' [0, 1] None None None None test_store"
  have a: "?run = (Inr [0], snd ?run)"
    by (simp add: run_eval threshold_ranker_def prod_eq_iff)
  have c: "length (?m (query_doc_pairs ?r test_store ''test'' [0, 1])) = length [0 :: nat, 1]"
    by (simp add: mocked_model_def)
  have d: "sorted_descending
             (scores_of ?m ?r (resolve ?r None None None None) ''test'' [0, 1] test_store)
             (?s (scores_of ?m ?r (resolve ?r None None None None) ''test'' [0, 1] test_store))"
    by (simp add: run_eval threshold_ranker_def)
  from run_scores_every_document [OF a c d]
  have "score (snd ?run 1) \<noteq> None" "snd ?run 2 = test_store 2"
    by auto
  with a show ?thesis by simp
qed

subsection \<open>Warm-up and the export\<close>

text \<open>
  C10, as stated, fails. The claim: the \<^verbatim>\<open>device_map\<close> entry of the export after
  \<^verbatim>\<open>warm_up\<close> is absent from the export of the same instance before \<^verbatim>\<open>warm_up\<close>. A
  ranker constructed with a device map in its loader options exports it before any
  \<^verbatim>\<open>warm_up\<close>.
\<close>

theorem device_map_exported_before_warm_up:
  "init cpu_host (default_args\<lparr> arg_model_kwargs := Some [''device_map'' \<mapsto> layer_map] \<rparr>)
     = Inr mapped_ranker
   \<and> \<not> model_loaded mapped_ranker
   \<and> ser_model_kwargs (to_dict cpu_host mapped_ranker) ''device_map'' = Some layer_map"
  by (simp add: init_def default_args_def cpu_host_def default_ranker_def raw_ranker_def
      mapped_ranker_def get_device_map_def layer_map_def to_dict_def
      serialize_hf_model_kwargs_def)

text \<open>
  C10, amended. For a ranker constructed without a \<^verbatim>\<open>device_map\<close> key in its loader
  options: \<^verbatim>\<open>warm_up\<close> writes the resolved device under \<^verbatim>\<open>"device_map"\<close> in the stored
  options, where it stays (a second \<^verbatim>\<open>warm_up\<close> changes nothing); the export after
  \<^verbatim>\<open>warm_up\<close> has a \<^verbatim>\<open>device_map\<close> entry, the export before has none, and the two
  exports differ.
\<close>

theorem warm_up_adds_device_map:
  assumes "init ops a = Inr r"
    and "(case arg_model_kwargs a of None \<Rightarrow> Map.empty | Some m \<Rightarrow> m) ''device_map'' = None"
  shows "model_kwargs (warm_up ops r) ''device_map'' = Some (to_hf ops (device r))
       \<and> warm_up ops (warm_up ops r) = warm_up ops r
       \<and> ser_model_kwargs (to_dict ops (warm_up ops r)) ''device_map''
            = Some (serialize_kw_value (to_hf ops (device r)))
       \<and> ser_model_kwargs (to_dict ops r) ''device_map'' = None
       \<and> to_dict ops (warm_up ops (warm_up ops r)) = to_dict ops (warm_up ops r)
       \<and> to_dict ops (warm_up ops r) \<noteq> to_dict ops r"
proof -
  from assms have r: "\<not> model_loaded r" "model_kwargs r ''device_map'' = None"
    by (auto simp: init_def Let_def split: if_splits)
  then have a: "model_kwargs (warm_up ops r) ''device_map'' = Some (to_hf ops (device r))"
    and b: "warm_up ops (warm_up ops r) = warm_up ops r"
    by (simp_all add: warm_up_def)
  from a have c: "ser_model_kwargs (to_dict ops (warm_up ops r)) ''device_map''
            = Some (serialize_kw_value (to_hf ops (device r)))"
    by (simp add: to_dict_def serialize_hf_model_kwargs_def)
  from r have d: "ser_model_kwargs (to_dict ops r) ''device_map'' = None"
    by (simp add: to_dict_def serialize_hf_model_kwargs_def)
  from c d have e: "to_dict ops (warm_up ops r) \<noteq> to_dict ops r"
    by auto
  from a b c d e show ?thesis by simp
qed

text \<open>Witness for C10: the default ranker on the example host.\<close>

theorem warm_up_adds_device_map_witness:
  "init cpu_host default_args = Inr (default_ranker\<lparr> model_loaded := False, model_kwargs := Map.empty \<rparr>)
   \<and> ser_model_kwargs
        (to_dict cpu_host (warm_up cpu_host
           (default_ranker\<lparr> model_loaded := False, model_kwargs := Map.empty \<rparr>))) ''device_map''
        = Some (KStr ''cpu'')
   \<and> ser_model_kwargs
        (to_dict cpu_host (default_ranker\<lparr> model_loaded := False, model_kwargs := Map.empty \<rparr>))
        ''device_map'' = None"
proof -
  let ?r = "default_ranker\<lparr> model_loaded := False, model_kwargs := Map.empty \<rparr>"
  have a: "init cpu_host default_args = Inr ?r"
    by (simp add: init_def default_args_def cpu_host_def default_ranker_def raw_ranker_def
        get_device_map_def)
  have b: "(case arg_model_kwargs (default_args :: string init_args) of
              None \<Rightarrow> Map.empty | Some m \<Rightarrow> m) ''device_map'' = None"
    by (simp add: default_args_def)
  from warm_up_adds_device_map [OF a b] a show ?thesis
    by (simp add: cpu_host_def default_ranker_def raw_ranker_def)
qed

end
